theory Spec2Isabelle
  imports Complex_Main "HOL-Library.Sublist"
begin

section \<open>Stripe payment monitor: the webhook pipeline of \<^verbatim>\<open>src/index.js\<close>\<close>

text \<open>
  The service receives payment-failure events on \<^verbatim>\<open>POST /webhook\<close>, and for the four
  failure event types sends a Gmail alert and creates an Airtable record. Everything the
  handlers touch outside their arguments is explicit here: the in-memory log array, the
  console and the calls made to the two external services are the \<open>state\<close>; the process
  environment, the clock and the behaviour of the external services are the \<open>env\<close>.
\<close>

subsection \<open>JavaScript values\<close>

text \<open>
  A property of the provider's payment object is absent (reads as \<^verbatim>\<open>undefined\<close>), is
  \<^verbatim>\<open>null\<close>, or holds a value of the provider's type for that property: a string, or
  for \<^verbatim>\<open>amount\<close> an integer number of minor units.
\<close>

datatype 'a property = Absent | Null | Val 'a

text \<open>
  Numbers: \<^verbatim>\<open>NaN\<close> or a finite value. A finite value stands for the double nearest to
  the rational. The arithmetic below is exact, the code's is IEEE double arithmetic: for an
  integer amount \<open>n\<close> of magnitude below \<open>2^52\<close> the double \<^verbatim>\<open>n / 100\<close> is the one
  nearest to the exact quotient and \<^verbatim>\<open>toFixed(2)\<close> prints the exact two-decimal numeral
  of \<open>n / 100\<close>. That is the range in which the printed amount of the model is the code's;
  statements about printed amounts of arbitrary payloads carry the bound \<open>\<bar>n\<bar> < 2^52\<close>.
\<close>

datatype jsnum = NaN | Fin rat

datatype jsval = JUndefined | JNull | JBool bool | JNum jsnum | JStr string

datatype js_error = TypeError string | ServiceError string

text \<open>\<^verbatim>\<open>error.message\<close> of a thrown error.\<close>

fun error_message :: "js_error \<Rightarrow> string" where
  "error_message (TypeError m) = m"
| "error_message (ServiceError m) = m"

text \<open>\<^verbatim>\<open>x || 'N/A'\<close> on a string property: \<^verbatim>\<open>undefined\<close>, \<^verbatim>\<open>null\<close> and the empty
  string are falsy.\<close>

fun or_NA :: "string property \<Rightarrow> string" where
  "or_NA (Val s) = (if s = [] then ''N/A'' else s)"
| "or_NA _ = ''N/A''"

text \<open>A string property interpolated into a template literal.\<close>

fun template_str :: "string property \<Rightarrow> string" where
  "template_str Absent = ''undefined''"
| "template_str Null = ''null''"
| "template_str (Val s) = s"

text \<open>A string property stored as it is in an object literal.\<close>

fun prop_val :: "string property \<Rightarrow> jsval" where
  "prop_val Absent = JUndefined"
| "prop_val Null = JNull"
| "prop_val (Val s) = JStr s"


definition upper_char :: "char \<Rightarrow> char" where
  "upper_char c =
     (let n = (of_char c :: nat) in if 97 \<le> n \<and> n \<le> 122 then char_of (n - 32) else c)"

definition toUpperCase :: "string \<Rightarrow> string" where
  "toUpperCase s = map upper_char s"

text \<open>
  \<^verbatim>\<open>p.toUpperCase()\<close> on a property: reading a property of \<^verbatim>\<open>undefined\<close> or
  \<^verbatim>\<open>null\<close> throws a TypeError (the message is the engine's).
\<close>

definition quote :: string where
  "quote = [CHR 0x27]"

fun prop_toUpperCase :: "string property \<Rightarrow> js_error + string" where
  "prop_toUpperCase (Val s) = Inr (toUpperCase s)"
| "prop_toUpperCase Absent =
     Inl (TypeError (''Cannot read properties of undefined (reading '' @ quote @ ''toUpperCase'' @ quote @ '')''))"
| "prop_toUpperCase Null =
     Inl (TypeError (''Cannot read properties of null (reading '' @ quote @ ''toUpperCase'' @ quote @ '')''))"

text \<open>\<^verbatim>\<open>amount / 100\<close>: \<^verbatim>\<open>undefined\<close> converts to \<^verbatim>\<open>NaN\<close>, \<^verbatim>\<open>null\<close> to 0.\<close>

fun toNumber :: "int property \<Rightarrow> jsnum" where
  "toNumber Absent = NaN"
| "toNumber Null = Fin 0"
| "toNumber (Val n) = Fin (of_int n)"

fun div100 :: "jsnum \<Rightarrow> jsnum" where
  "div100 NaN = NaN"
| "div100 (Fin q) = Fin (q / 100)"

text \<open>Decimal digits of a natural number.\<close>

definition digit :: "nat \<Rightarrow> char" where
  "digit d = char_of (48 + d)"

fun decimal :: "nat \<Rightarrow> string" where
  "decimal n = (if n < 10 then [digit n] else decimal (n div 10) @ [digit (n mod 10)])"

declare decimal.simps [simp del]

text \<open>
  \<^verbatim>\<open>x.toFixed(2)\<close> (ECMAScript Number.prototype.toFixed with two fraction digits): a
  sign for negative \<open>x\<close>, then the integer \<open>n\<close> nearest to \<open>100 * |x|\<close> (the larger on a
  tie), printed with the point before its last two digits. Computed on the exact quotient;
  see the range stated with \<open>jsnum\<close>.
\<close>

fun toFixed2 :: "jsnum \<Rightarrow> string" where
  "toFixed2 NaN = ''NaN''"
| "toFixed2 (Fin x) =
     (let n = nat \<lfloor>\<bar>x\<bar> * 100 + 1 / 2\<rfloor>
      in (if x < 0 then ''-'' else '''') @ decimal (n div 100) @ ''.'' @
         [digit (n mod 100 div 10), digit (n mod 10)])"

subsection \<open>Log entries\<close>

datatype level = Info | Error

fun level_str :: "level \<Rightarrow> string" where
  "level_str Info = ''info''"
| "level_str Error = ''error''"

record log_entry =
  timestamp :: string
  level :: level
  message :: string

subsection \<open>Events, mails, records, environment and state\<close>

text \<open>
  The payment object \<^verbatim>\<open>event.data.object\<close> with the properties the code reads, each one
  absent, null or of the provider's type. The envelope is the provider's: \<^verbatim>\<open>type\<close> is
  a string and \<^verbatim>\<open>data.object\<close> is an object.
\<close>

record source_obj =
  src_type :: "string property"

record payment_data =
  pd_id :: "string property"
  amount :: "int property"
  currency :: "string property"
  customer_email :: "string property"
  customer :: "string property"
  failure_code :: "string property"
  failure_message :: "string property"
  description :: "string property"
  source :: "source_obj property"

text \<open>The event envelope \<^verbatim>\<open>{type, data: {object}}\<close>.\<close>

record event =
  ev_type :: string
  ev_object :: payment_data

record mail_options =
  mail_from :: "string option"
  mail_to :: "string option"
  subject :: string
  html :: string

type_synonym fields = "(string \<times> jsval) list"

text \<open>
  The environment of the process: the variables read from \<^verbatim>\<open>process.env\<close>, the clock
  (its reading is a parameter, taken as fixed while one handler runs), and the external
  collaborators. \<open>sendMail\<close> is \<^verbatim>\<open>transporter.sendMail\<close>, \<open>create\<close> is
  \<^verbatim>\<open>base(table).create([{fields}])\<close> and yields the id of the first created record,
  \<open>constructEvent\<close> is \<^verbatim>\<open>stripe.webhooks.constructEvent\<close> and \<open>JSON_parse\<close> is
  \<^verbatim>\<open>JSON.parse\<close> of the body text; each either throws (\<open>Inl\<close>) or returns.
\<close>

record env =
  STRIPE_WEBHOOK_SECRET :: "string option"
  GMAIL_USER :: "string option"
  toISOString :: string
  toLocaleString :: string
  Date_now :: nat
  sendMail :: "mail_options \<Rightarrow> js_error + unit"
  create :: "string \<Rightarrow> fields \<Rightarrow> js_error + string"
  constructEvent :: "string \<Rightarrow> string option \<Rightarrow> string \<Rightarrow> js_error + event"
  JSON_parse :: "string \<Rightarrow> js_error + event"

datatype call = SendMail mail_options | Create string fields

record state =
  logs :: "log_entry list"
  console :: "string list"
  calls :: "call list"

subsection \<open>The log buffer\<close>

text \<open>The \<^verbatim>\<open>entry\<close> object that \<^verbatim>\<open>log\<close> builds.\<close>

definition new_entry :: "env \<Rightarrow> string \<Rightarrow> level \<Rightarrow> log_entry" where
  "new_entry e msg lvl = \<lparr>timestamp = toISOString e, level = lvl, message = msg\<rparr>"

text \<open>\<^verbatim>\<open>log(message, level)\<close>: push, print, and shift once the array is longer than 100.\<close>

definition log :: "env \<Rightarrow> string \<Rightarrow> level \<Rightarrow> state \<Rightarrow> state" where
  "log e msg lvl st =
     (let entry = new_entry e msg lvl;
          pushed = logs st @ [entry];
          line = ''['' @ timestamp entry @ ''] '' @ toUpperCase (level_str (level entry)) @ '': '' @
                 message entry
      in st\<lparr>logs := (if length pushed > 100 then tl pushed else pushed),
            console := console st @ [line]\<rparr>)"

subsection \<open>Throwing computations\<close>

text \<open>
  An \<^verbatim>\<open>async\<close> function is run to completion: it returns the state it leaves and either
  the error it throws (\<open>Inl\<close>) or its value. \<open>seq\<close> is sequencing of two awaited steps (an
  error skips the rest), \<open>try_catch\<close> is \<^verbatim>\<open>try { ... } catch (error) { ... }\<close>.
\<close>

type_synonym 'a result = "(js_error + 'a) \<times> state"

definition seq :: "'a result \<Rightarrow> ('a \<Rightarrow> state \<Rightarrow> 'b result) \<Rightarrow> 'b result" where
  "seq r k = (case r of (Inl err, st) \<Rightarrow> (Inl err, st) | (Inr v, st) \<Rightarrow> k v st)"

definition try_catch :: "'a result \<Rightarrow> (js_error \<Rightarrow> state \<Rightarrow> 'a result) \<Rightarrow> 'a result" where
  "try_catch r handler = (case r of (Inl err, st) \<Rightarrow> handler err st | (Inr v, st) \<Rightarrow> (Inr v, st))"

text \<open>The two external calls: the call is recorded, its outcome is the environment's.\<close>

definition transporter_sendMail :: "env \<Rightarrow> mail_options \<Rightarrow> state \<Rightarrow> unit result" where
  "transporter_sendMail e opts st = (sendMail e opts, st\<lparr>calls := calls st @ [SendMail opts]\<rparr>)"

definition base_create :: "env \<Rightarrow> string \<Rightarrow> fields \<Rightarrow> state \<Rightarrow> string result" where
  "base_create e table fs st = (create e table fs, st\<lparr>calls := calls st @ [Create table fs]\<rparr>)"

subsection \<open>The email sink\<close>

definition nl :: string where
  "nl = [CHR 0x0A]"

text \<open>The alert emoji of the subject and heading (U+1F6A8, as UTF-8 bytes).\<close>

definition siren :: string where
  "siren = [CHR 0xF0, CHR 0x9F, CHR 0x9A, CHR 0xA8]"

text \<open>
  The template literal \<^verbatim>\<open>emailContent\<close>, evaluated left to right: the only
  interpolation that can throw is \<^verbatim>\<open>paymentData.currency.toUpperCase()\<close>.
\<close>

definition emailContent :: "env \<Rightarrow> payment_data \<Rightarrow> js_error + string" where
  "emailContent e paymentData =
     (case prop_toUpperCase (currency paymentData) of
        Inl err \<Rightarrow> Inl err
      | Inr cur \<Rightarrow> Inr (concat
         [nl,
          ''      <h2>'', siren, '' Payment Failed Alert</h2>'', nl,
          ''      <p><strong>Time:</strong> '', toLocaleString e, ''</p>'', nl,
          ''      <p><strong>Amount:</strong> $'', toFixed2 (div100 (toNumber (amount paymentData))),
            '' '', cur, ''</p>'', nl,
          ''      <p><strong>Customer:</strong> '', or_NA (customer_email paymentData), ''</p>'', nl,
          ''      <p><strong>Customer ID:</strong> '', or_NA (customer paymentData), ''</p>'', nl,
          ''      <p><strong>Payment ID:</strong> '', template_str (pd_id paymentData), ''</p>'', nl,
          ''      <p><strong>Failure Code:</strong> '', or_NA (failure_code paymentData), ''</p>'', nl,
          ''      <p><strong>Failure Message:</strong> '', or_NA (failure_message paymentData),
            ''</p>'', nl,
          ''      <p><strong>Description:</strong> '', or_NA (description paymentData), ''</p>'', nl,
          ''      '', nl,
          ''      <hr>'', nl,
          ''      <p><small>This is an automated alert from your Stripe Payment Monitor</small></p>'', nl,
          ''    '']))"

definition mailOptions :: "env \<Rightarrow> payment_data \<Rightarrow> js_error + mail_options" where
  "mailOptions e paymentData =
     (case emailContent e paymentData of
        Inl err \<Rightarrow> Inl err
      | Inr content \<Rightarrow> Inr
         \<lparr>mail_from = GMAIL_USER e,
          mail_to = GMAIL_USER e,
          subject = siren @ '' Payment Failed: $'' @ toFixed2 (div100 (toNumber (amount paymentData))),
          html = content\<rparr>)"

definition sendFailedPaymentAlert :: "env \<Rightarrow> payment_data \<Rightarrow> state \<Rightarrow> unit result" where
  "sendFailedPaymentAlert e paymentData st =
     try_catch
       (seq (mailOptions e paymentData, st) (\<lambda>opts st.
        seq (transporter_sendMail e opts st) (\<lambda>_ st.
        (Inr (), log e (''Failed payment alert sent via Gmail for payment '' @
                        template_str (pd_id paymentData)) Info st))))
       (\<lambda>error st. (Inr (), log e (''Error sending Gmail alert: '' @ error_message error) Error st))"

subsection \<open>The record sink\<close>

text \<open>\<^verbatim>\<open>paymentData.source?.type\<close>.\<close>

fun source_type :: "source_obj property \<Rightarrow> string property" where
  "source_type (Val s) = src_type s"
| "source_type _ = Absent"

text \<open>The \<^verbatim>\<open>fields\<close> object literal, evaluated in the order it is written.\<close>

definition failed_payment_fields :: "env \<Rightarrow> payment_data \<Rightarrow> js_error + fields" where
  "failed_payment_fields e paymentData =
     (case prop_toUpperCase (currency paymentData) of
        Inl err \<Rightarrow> Inl err
      | Inr cur \<Rightarrow> Inr
         [(''Payment ID'', prop_val (pd_id paymentData)),
          (''Amount'', JNum (div100 (toNumber (amount paymentData)))),
          (''Currency'', JStr cur),
          (''Customer Email'', JStr (or_NA (customer_email paymentData))),
          (''Customer ID'', JStr (or_NA (customer paymentData))),
          (''Failure Code'', JStr (or_NA (failure_code paymentData))),
          (''Failure Message'', JStr (or_NA (failure_message paymentData))),
          (''Description'', JStr (or_NA (description paymentData))),
          (''Failed At'', JStr (toISOString e)),
          (''Status'', JStr ''Failed''),
          (''Source'', JStr (or_NA (source_type (source paymentData))))])"

definition updateAirtableFailedPayment :: "env \<Rightarrow> payment_data \<Rightarrow> state \<Rightarrow> string result" where
  "updateAirtableFailedPayment e paymentData st =
     try_catch
       (seq (failed_payment_fields e paymentData, st) (\<lambda>fs st.
        seq (base_create e ''Failed Payments'' fs st) (\<lambda>record_id st.
        (Inr record_id, log e (''Failed payment record created in Airtable: '' @ record_id) Info st))))
       (\<lambda>error st. (Inl error, log e (''Error creating Airtable record: '' @ error_message error) Error st))"

subsection \<open>Processing a failed payment\<close>

definition processFailedPayment :: "env \<Rightarrow> event \<Rightarrow> state \<Rightarrow> unit result" where
  "processFailedPayment e eventData st =
     try_catch
       (let paymentData = ev_object eventData in
        seq (Inr (), log e (''Processing failed payment: '' @ template_str (pd_id paymentData) @
                            '', Amount: $'' @ toFixed2 (div100 (toNumber (amount paymentData)))) Info st)
          (\<lambda>_ st.
        seq (sendFailedPaymentAlert e paymentData st) (\<lambda>_ st.
        seq (updateAirtableFailedPayment e paymentData st) (\<lambda>_ st.
        (Inr (), log e (''Successfully processed failed payment: '' @
                        template_str (pd_id paymentData)) Info st)))))
       (\<lambda>error st. (Inl error, log e (''Error processing failed payment: '' @ error_message error) Error st))"

subsection \<open>The HTTP handlers\<close>

record request =
  body :: string
  stripe_signature :: "string option"

datatype res_body = Json fields | Send string

record response =
  status :: nat
  sent :: res_body

text \<open>\<^verbatim>\<open>POST /test\<close>: both services are called directly, inside one \<^verbatim>\<open>try\<close>.\<close>

definition test_mail :: "env \<Rightarrow> mail_options" where
  "test_mail e =
     \<lparr>mail_from = GMAIL_USER e,
      mail_to = GMAIL_USER e,
      subject = ''Test: Stripe Payment Monitor is Working'',
      html = ''<p>This is a test email to confirm your Stripe Payment Monitor is working correctly!</p>''\<rparr>"

definition test_fields :: "env \<Rightarrow> fields" where
  "test_fields e =
     [(''Payment ID'', JStr (''TEST_'' @ decimal (Date_now e))),
      (''Amount'', JNum (Fin (9999 / 100))),
      (''Currency'', JStr ''USD''),
      (''Customer Email'', JStr ''test@example.com''),
      (''Failure Code'', JStr ''TEST''),
      (''Failure Message'', JStr ''This is a test record''),
      (''Failed At'', JStr (toISOString e)),
      (''Status'', JStr ''Test'')]"

definition post_test :: "env \<Rightarrow> state \<Rightarrow> response result" where
  "post_test e st =
     try_catch
       (seq (Inr (), log e ''Manual test run initiated'' Info st) (\<lambda>_ st.
        seq (transporter_sendMail e (test_mail e) st) (\<lambda>testMail st.
        seq (base_create e ''Failed Payments'' (test_fields e) st) (\<lambda>record_id st.
        (Inr \<lparr>status = 200,
              sent = Json [(''success'', JBool True),
                           (''message'', JStr ''Test completed successfully''),
                           (''gmail_test'', JStr ''Email sent''),
                           (''airtable_test'', JStr (''Record created: '' @ record_id))]\<rparr>,
         log e ''Manual test completed successfully'' Info st)))))
       (\<lambda>error st.
          (Inr \<lparr>status = 500,
                sent = Json [(''success'', JBool False), (''error'', JStr (error_message error))]\<rparr>,
           log e (''Manual test failed: '' @ error_message error) Error st))"

text \<open>
  \<^verbatim>\<open>POST /webhook\<close>. The secret is used when \<^verbatim>\<open>process.env.STRIPE_WEBHOOK_SECRET\<close> is
  truthy (set and not the empty string); otherwise the body text goes to \<^verbatim>\<open>JSON.parse\<close>.
\<close>

definition read_event :: "env \<Rightarrow> request \<Rightarrow> js_error + event" where
  "read_event e req =
     (case STRIPE_WEBHOOK_SECRET e of
        Some secret \<Rightarrow>
          if secret \<noteq> [] then constructEvent e (body req) (stripe_signature req) secret
          else JSON_parse e (body req)
      | None \<Rightarrow> JSON_parse e (body req))"

definition dispatch :: "env \<Rightarrow> event \<Rightarrow> state \<Rightarrow> unit result" where
  "dispatch e event st =
     (if ev_type event = ''charge.failed'' then processFailedPayment e event st
      else if ev_type event = ''payment_intent.payment_failed'' then processFailedPayment e event st
      else if ev_type event = ''invoice.payment_failed'' then processFailedPayment e event st
      else if ev_type event = ''payment_method.attach_failed'' then processFailedPayment e event st
      else (Inr (), log e (''Unhandled event type: '' @ ev_type event) Info st))"

definition post_webhook :: "env \<Rightarrow> request \<Rightarrow> state \<Rightarrow> response result" where
  "post_webhook e req st =
     try_catch
       (seq (read_event e req, st) (\<lambda>event st.
        seq (Inr (), log e (''Received Stripe webhook: '' @ ev_type event) Info st) (\<lambda>_ st.
        seq (dispatch e event st) (\<lambda>_ st.
        (Inr \<lparr>status = 200, sent = Json [(''received'', JBool True)]\<rparr>, st)))))
       (\<lambda>error st.
          (Inr \<lparr>status = 400, sent = Send (''Webhook error: '' @ error_message error)\<rparr>,
           log e (''Webhook error: '' @ error_message error) Error st))"

text \<open>The process starts with an empty log array.\<close>

definition init_state :: state where
  "init_state = \<lparr>logs = [], console = [], calls = []\<rparr>"

text \<open>The event types that the \<^verbatim>\<open>switch\<close> of the webhook routes to processing.\<close>

definition failure_event_types :: "string list" where
  "failure_event_types =
     [''charge.failed'', ''payment_intent.payment_failed'', ''invoice.payment_failed'',
      ''payment_method.attach_failed'']"

subsection \<open>Example inputs\<close>

text \<open>
  A charge of 4999 minor units in \<^verbatim>\<open>usd\<close>, a payload with no properties at all, one
  with a currency only, the event envelopes around them, and an environment with no
  webhook secret in which both services succeed.
\<close>

definition empty_payment :: payment_data where
  "empty_payment =
     \<lparr>pd_id = Absent, amount = Absent, currency = Absent, customer_email = Absent,
      customer = Absent, failure_code = Absent, failure_message = Absent,
      description = Absent, source = Absent\<rparr>"

definition currency_only_payment :: payment_data where
  "currency_only_payment = empty_payment\<lparr>currency := Val ''usd''\<rparr>"

definition payment_4999 :: payment_data where
  "payment_4999 = empty_payment\<lparr>pd_id := Val ''ch_1'', amount := Val 4999, currency := Val ''usd''\<rparr>"

definition charge_failed_event :: event where
  "charge_failed_event = \<lparr>ev_type = ''charge.failed'', ev_object = payment_4999\<rparr>"

definition customer_created_event :: event where
  "customer_created_event = \<lparr>ev_type = ''customer.created'', ev_object = empty_payment\<rparr>"

text \<open>The request bodies: the JSON text of the two events, and a text that is not JSON.\<close>

definition dq :: string where
  "dq = [CHR 0x22]"

definition charge_failed_body :: string where
  "charge_failed_body =
     concat [''{'', dq, ''type'', dq, '':'', dq, ''charge.failed'', dq, '','', dq, ''data'', dq,
       '':{'', dq, ''object'', dq, '':{'', dq, ''id'', dq, '':'', dq, ''ch_1'', dq, '','', dq,
       ''amount'', dq, '':4999,'', dq, ''currency'', dq, '':'', dq, ''usd'', dq, ''}}}'']"

definition customer_created_body :: string where
  "customer_created_body =
     concat [''{'', dq, ''type'', dq, '':'', dq, ''customer.created'', dq, '','', dq, ''data'',
       dq, '':{'', dq, ''object'', dq, '':{}}}'']"

definition charge_failed_request :: request where
  "charge_failed_request = \<lparr>body = charge_failed_body, stripe_signature = None\<rparr>"

definition customer_created_request :: request where
  "customer_created_request = \<lparr>body = customer_created_body, stripe_signature = None\<rparr>"

definition malformed_request :: request where
  "malformed_request = \<lparr>body = ''{not json'', stripe_signature = None\<rparr>"

definition env0 :: env where
  "env0 =
     \<lparr>STRIPE_WEBHOOK_SECRET = None,
      GMAIL_USER = Some ''ops@example.com'',
      toISOString = ''2025-01-01T00:00:00.000Z'',
      toLocaleString = ''1/1/2025, 12:00:00 AM'',
      Date_now = 1735689600000,
      sendMail = (\<lambda>opts. Inr ()),
      create = (\<lambda>table fs. Inr ''rec1''),
      constructEvent = (\<lambda>payload sig secret.
        Inl (ServiceError ''No stripe-signature header value was provided.'')),
      JSON_parse = (\<lambda>text.
        if text = charge_failed_body then Inr charge_failed_event
        else if text = customer_created_body then Inr customer_created_event
        else Inl (ServiceError ''Unexpected token n in JSON at position 1''))\<rparr>"

text \<open>The same environment with the mail service, or the record service, refusing.\<close>

definition env_mail_down :: env where
  "env_mail_down = env0\<lparr>sendMail := (\<lambda>opts. Inl (ServiceError ''Invalid login''))\<rparr>"

definition env_airtable_down :: env where
  "env_airtable_down = env0\<lparr>create := (\<lambda>table fs. Inl (ServiceError ''NOT_AUTHORIZED''))\<rparr>"

text \<open>The mail and the record fields that the two sinks build for the example charge.\<close>

definition example_alert :: mail_options where
  "example_alert = projr (mailOptions env0 payment_4999)"

definition example_fields :: fields where
  "example_fields = projr (failed_payment_fields env0 payment_4999)"

text \<open>A buffer that holds 100 entries.\<close>

definition full_state :: state where
  "full_state = init_state\<lparr>logs := replicate 100 (new_entry env0 ''old'' Info)\<rparr>"

section \<open>Properties\<close>

subsection \<open>The log buffer\<close>

lemma logs_log:
  "logs (log e msg lvl st) =
     (if 100 \<le> length (logs st) then tl (logs st) else logs st) @ [new_entry e msg lvl]"
  by (cases "logs st") (simp_all add: log_def Let_def)

lemma calls_log [simp]: "calls (log e msg lvl st) = calls st"
  by (simp add: log_def Let_def)

lemma length_logs_log:
  "length (logs st) \<le> 100 \<Longrightarrow> length (logs (log e msg lvl st)) \<le> 100"
  by (simp add: logs_log)

lemma last_logs_log [simp]: "last (logs (log e msg lvl st)) = new_entry e msg lvl"
  by (simp add: logs_log)

lemma suffix_logs_log:
  assumes "suffix ys (logs st)" and "length ys < 100"
  shows "suffix (ys @ [new_entry e msg lvl]) (logs (log e msg lvl st))"
proof -
  from assms(1) obtain pre where pre: "logs st = pre @ ys"
    by (auto simp: suffix_def)
  show ?thesis
  proof (cases "100 \<le> length (logs st)")
    case True
    with pre assms(2) have "pre \<noteq> []" by auto
    then have "tl (logs st) = tl pre @ ys" by (simp add: pre)
    with True show ?thesis by (simp add: logs_log suffix_def)
  next
    case False
    then show ?thesis by (simp add: logs_log pre suffix_def)
  qed
qed

lemma suffix_logs_log_Nil: "suffix [new_entry e msg lvl] (logs (log e msg lvl st))"
  using suffix_logs_log [of "[]" st e msg lvl] by simp

text \<open>Every state reached from the empty buffer by appends respects the bound.\<close>

lemma length_logs_foldl:
  "length (logs st) \<le> 100 \<Longrightarrow>
   length (logs (foldl (\<lambda>s (msg, lvl). log e msg lvl s) st ms)) \<le> 100"
  by (induction ms arbitrary: st) (auto simp: length_logs_log)

subsection \<open>The sinks and the handlers, step by step\<close>

text \<open>
  Each function is unfolded once into the cases of its external calls; the claims below are
  proved from these equations.
\<close>

lemma sendFailedPaymentAlert_eq:
  "sendFailedPaymentAlert e pd st =
     (case mailOptions e pd of
        Inl err \<Rightarrow> (Inr (), log e (''Error sending Gmail alert: '' @ error_message err) Error st)
      | Inr opts \<Rightarrow>
          (case sendMail e opts of
             Inl err \<Rightarrow> (Inr (), log e (''Error sending Gmail alert: '' @ error_message err) Error
                                   (st\<lparr>calls := calls st @ [SendMail opts]\<rparr>))
           | Inr u \<Rightarrow> (Inr (), log e (''Failed payment alert sent via Gmail for payment '' @
                                     template_str (pd_id pd)) Info
                                   (st\<lparr>calls := calls st @ [SendMail opts]\<rparr>))))"
  by (simp add: sendFailedPaymentAlert_def seq_def try_catch_def transporter_sendMail_def
      split: sum.splits)

lemma updateAirtableFailedPayment_eq:
  "updateAirtableFailedPayment e pd st =
     (case failed_payment_fields e pd of
        Inl err \<Rightarrow> (Inl err, log e (''Error creating Airtable record: '' @ error_message err) Error st)
      | Inr fs \<Rightarrow>
          (case create e ''Failed Payments'' fs of
             Inl err \<Rightarrow> (Inl err, log e (''Error creating Airtable record: '' @ error_message err) Error
                                   (st\<lparr>calls := calls st @ [Create ''Failed Payments'' fs]\<rparr>))
           | Inr rid \<Rightarrow> (Inr rid, log e (''Failed payment record created in Airtable: '' @ rid) Info
                                   (st\<lparr>calls := calls st @ [Create ''Failed Payments'' fs]\<rparr>))))"
  by (simp add: updateAirtableFailedPayment_def seq_def try_catch_def base_create_def
      split: sum.splits)

lemma sendFailedPaymentAlert_never_throws: "fst (sendFailedPaymentAlert e pd st) = Inr ()"
  by (simp add: sendFailedPaymentAlert_eq split: sum.splits)

lemma sendFailedPaymentAlert_not_Inl: "sendFailedPaymentAlert e pd st \<noteq> (Inl err, st')"
  using sendFailedPaymentAlert_never_throws [of e pd st] by auto

lemma processFailedPayment_eq:
  "processFailedPayment e ev st =
     (let pd = ev_object ev;
          st1 = log e (''Processing failed payment: '' @ template_str (pd_id pd) @
                       '', Amount: $'' @ toFixed2 (div100 (toNumber (amount pd)))) Info st;
          st2 = snd (sendFailedPaymentAlert e pd st1);
          r = updateAirtableFailedPayment e pd st2
      in case fst r of
           Inl err \<Rightarrow> (Inl err, log e (''Error processing failed payment: '' @ error_message err) Error (snd r))
         | Inr rid \<Rightarrow> (Inr (), log e (''Successfully processed failed payment: '' @
                                     template_str (pd_id pd)) Info (snd r)))"
  using sendFailedPaymentAlert_not_Inl [of e "ev_object ev"]
  by (simp add: processFailedPayment_def Let_def seq_def try_catch_def split: sum.splits prod.splits)

lemma dispatch_eq:
  "dispatch e ev st =
     (if ev_type ev \<in> set failure_event_types then processFailedPayment e ev st
      else (Inr (), log e (''Unhandled event type: '' @ ev_type ev) Info st))"
  by (simp add: dispatch_def failure_event_types_def)

lemma post_webhook_eq:
  "post_webhook e req st =
     (case read_event e req of
        Inl err \<Rightarrow> (Inr \<lparr>status = 400, sent = Send (''Webhook error: '' @ error_message err)\<rparr>,
                    log e (''Webhook error: '' @ error_message err) Error st)
      | Inr ev \<Rightarrow>
          (let r = dispatch e ev (log e (''Received Stripe webhook: '' @ ev_type ev) Info st)
           in case fst r of
                Inl err \<Rightarrow> (Inr \<lparr>status = 400, sent = Send (''Webhook error: '' @ error_message err)\<rparr>,
                            log e (''Webhook error: '' @ error_message err) Error (snd r))
              | Inr u \<Rightarrow> (Inr \<lparr>status = 200, sent = Json [(''received'', JBool True)]\<rparr>, snd r)))"
  by (simp add: post_webhook_def seq_def try_catch_def Let_def split: sum.splits prod.splits)

lemma webhook_recognized:
  assumes "read_event e req = Inr ev" and "ev_type ev \<in> set failure_event_types"
  shows "post_webhook e req st =
     (let pd = ev_object ev;
          st0 = log e (''Received Stripe webhook: '' @ ev_type ev) Info st;
          st1 = log e (''Processing failed payment: '' @ template_str (pd_id pd) @
                       '', Amount: $'' @ toFixed2 (div100 (toNumber (amount pd)))) Info st0;
          st2 = snd (sendFailedPaymentAlert e pd st1);
          r = updateAirtableFailedPayment e pd st2
      in case fst r of
           Inl err \<Rightarrow>
             (Inr \<lparr>status = 400, sent = Send (''Webhook error: '' @ error_message err)\<rparr>,
              log e (''Webhook error: '' @ error_message err) Error
                (log e (''Error processing failed payment: '' @ error_message err) Error (snd r)))
         | Inr rid \<Rightarrow>
             (Inr \<lparr>status = 200, sent = Json [(''received'', JBool True)]\<rparr>,
              log e (''Successfully processed failed payment: '' @ template_str (pd_id pd)) Info (snd r)))"
  using assms
  by (simp add: post_webhook_eq dispatch_eq processFailedPayment_eq Let_def split: sum.splits)

lemma updateAirtableFailedPayment_throws:
  assumes "failed_payment_fields e pd = Inl err \<or>
           (failed_payment_fields e pd = Inr fs \<and> create e ''Failed Payments'' fs = Inl err)"
  shows "fst (updateAirtableFailedPayment e pd st) = Inl err"
    and "logs (snd (updateAirtableFailedPayment e pd st)) =
           logs (log e (''Error creating Airtable record: '' @ error_message err) Error st)"
    and "calls st = calls st' @ cs \<Longrightarrow>
           \<exists>cs'. calls (snd (updateAirtableFailedPayment e pd st)) = calls st' @ cs @ cs'"
  using assms by (auto simp: updateAirtableFailedPayment_eq logs_log)

lemma calls_sendFailedPaymentAlert:
  "calls (snd (sendFailedPaymentAlert e pd st)) =
     (case mailOptions e pd of Inl err \<Rightarrow> calls st | Inr opts \<Rightarrow> calls st @ [SendMail opts])"
  by (simp add: sendFailedPaymentAlert_eq split: sum.splits)

lemma calls_updateAirtableFailedPayment:
  "calls (snd (updateAirtableFailedPayment e pd st)) =
     (case failed_payment_fields e pd of
        Inl err \<Rightarrow> calls st | Inr fs \<Rightarrow> calls st @ [Create ''Failed Payments'' fs])"
  by (simp add: updateAirtableFailedPayment_eq split: sum.splits)

lemma read_event_no_secret:
  "STRIPE_WEBHOOK_SECRET e = None \<or> STRIPE_WEBHOOK_SECRET e = Some [] \<Longrightarrow>
   read_event e req = JSON_parse e (body req)"
  by (auto simp: read_event_def)

subsection \<open>Formatting\<close>

lemma round_hundredths: "nat \<lfloor>\<bar>(of_int n :: rat) / 100\<bar> * 100 + 1 / 2\<rfloor> = nat \<bar>n\<bar>"
proof -
  have "\<bar>(of_int n :: rat) / 100\<bar> * 100 = of_int \<bar>n\<bar>"
    by (simp add: abs_div)
  moreover have "\<lfloor>(of_int \<bar>n\<bar> :: rat) + 1 / 2\<rfloor> = \<bar>n\<bar>"
    by (rule floor_unique) simp_all
  ultimately show ?thesis by simp
qed

lemma toFixed2_hundredths:
  "toFixed2 (Fin (of_int n / 100)) =
     (if n < 0 then ''-'' else []) @ decimal (nat \<bar>n\<bar> div 100) @ ''.'' @
     [digit (nat \<bar>n\<bar> mod 100 div 10), digit (nat \<bar>n\<bar> mod 10)]"
  by (simp add: round_hundredths Let_def del: abs_divide)

lemma toFixed2_4999: "toFixed2 (Fin (4999 / 100)) = ''49.99''"
  by code_simp

lemma toUpperCase_usd: "toUpperCase ''usd'' = ''USD''"
  by code_simp








lemma sink_amount_parts:
  "amount pd = Val n \<and> currency pd = Val c \<longrightarrow>
     (\<exists>opts fs pre post. mailOptions e pd = Inr opts \<and> failed_payment_fields e pd = Inr fs \<and>
        subject opts = siren @ '' Payment Failed: $'' @ toFixed2 (Fin (of_int n / 100)) \<and>
        html opts = pre @ ''<p><strong>Amount:</strong> $'' @ toFixed2 (Fin (of_int n / 100)) @
                    '' '' @ toUpperCase c @ ''</p>'' @ post \<and>
        toFixed2 (Fin (of_int n / 100)) =
          (if n < 0 then ''-'' else []) @ decimal (nat \<bar>n\<bar> div 100) @ ''.'' @
          [digit (nat \<bar>n\<bar> mod 100 div 10), digit (nat \<bar>n\<bar> mod 10)] \<and>
        map_of fs ''Amount'' = Some (JNum (Fin (of_int n / 100))) \<and>
        map_of fs ''Currency'' = Some (JStr (toUpperCase c)) \<and>
        (n \<noteq> 0 \<longrightarrow> map_of fs ''Amount'' \<noteq> Some (JNum (Fin (of_int n)))))"
proof
  assume h: "amount pd = Val n \<and> currency pd = Val c"
  define shown where "shown = toFixed2 (Fin (of_int n / 100))"
  define pre where "pre = concat [nl,
          ''      <h2>'', siren, '' Payment Failed Alert</h2>'', nl,
          ''      <p><strong>Time:</strong> '', toLocaleString e, ''</p>'', nl, ''      '']"
  define post where "post = concat [nl,
          ''      <p><strong>Customer:</strong> '', or_NA (customer_email pd), ''</p>'', nl,
          ''      <p><strong>Customer ID:</strong> '', or_NA (customer pd), ''</p>'', nl,
          ''      <p><strong>Payment ID:</strong> '', template_str (pd_id pd), ''</p>'', nl,
          ''      <p><strong>Failure Code:</strong> '', or_NA (failure_code pd), ''</p>'', nl,
          ''      <p><strong>Failure Message:</strong> '', or_NA (failure_message pd),
            ''</p>'', nl,
          ''      <p><strong>Description:</strong> '', or_NA (description pd), ''</p>'', nl,
          ''      '', nl,
          ''      <hr>'', nl,
          ''      <p><small>This is an automated alert from your Stripe Payment Monitor</small></p>'', nl,
          ''    '']"
  have content: "emailContent e pd =
      Inr (pre @ ''<p><strong>Amount:</strong> $'' @ shown @ '' '' @ toUpperCase c @ ''</p>'' @ post)"
    using h by (simp add: emailContent_def pre_def post_def shown_def del: toFixed2.simps)
  have m: "mailOptions e pd = Inr
         \<lparr>mail_from = GMAIL_USER e, mail_to = GMAIL_USER e,
          subject = siren @ '' Payment Failed: $'' @ shown,
          html = pre @ ''<p><strong>Amount:</strong> $'' @ shown @ '' '' @ toUpperCase c @ ''</p>'' @ post\<rparr>"
    using h by (simp add: mailOptions_def content shown_def del: toFixed2.simps)
  have f: "\<exists>fs. failed_payment_fields e pd = Inr fs \<and>
        map_of fs ''Amount'' = Some (JNum (Fin (of_int n / 100))) \<and>
        map_of fs ''Currency'' = Some (JStr (toUpperCase c))"
    using h by (simp add: failed_payment_fields_def)
  have ne: "n \<noteq> 0 \<Longrightarrow> (of_int n :: rat) / 100 \<noteq> of_int n"
    by simp
  from f obtain fs where fs: "failed_payment_fields e pd = Inr fs"
    "map_of fs ''Amount'' = Some (JNum (Fin (of_int n / 100)))"
    "map_of fs ''Currency'' = Some (JStr (toUpperCase c))" by blast
  show "\<exists>opts fs pre post. mailOptions e pd = Inr opts \<and> failed_payment_fields e pd = Inr fs \<and>
        subject opts = siren @ '' Payment Failed: $'' @ toFixed2 (Fin (of_int n / 100)) \<and>
        html opts = pre @ ''<p><strong>Amount:</strong> $'' @ toFixed2 (Fin (of_int n / 100)) @
                    '' '' @ toUpperCase c @ ''</p>'' @ post \<and>
        toFixed2 (Fin (of_int n / 100)) =
          (if n < 0 then ''-'' else []) @ decimal (nat \<bar>n\<bar> div 100) @ ''.'' @
          [digit (nat \<bar>n\<bar> mod 100 div 10), digit (nat \<bar>n\<bar> mod 10)] \<and>
        map_of fs ''Amount'' = Some (JNum (Fin (of_int n / 100))) \<and>
        map_of fs ''Currency'' = Some (JStr (toUpperCase c)) \<and>
        (n \<noteq> 0 \<longrightarrow> map_of fs ''Amount'' \<noteq> Some (JNum (Fin (of_int n))))"
  proof (intro exI conjI)
    show "mailOptions e pd = Inr
         \<lparr>mail_from = GMAIL_USER e, mail_to = GMAIL_USER e,
          subject = siren @ '' Payment Failed: $'' @ shown,
          html = pre @ ''<p><strong>Amount:</strong> $'' @ shown @ '' '' @ toUpperCase c @ ''</p>'' @ post\<rparr>"
      by (rule m)
    show "failed_payment_fields e pd = Inr fs" by (rule fs)
    show "map_of fs ''Amount'' = Some (JNum (Fin (of_int n / 100)))" by (rule fs)
    show "map_of fs ''Currency'' = Some (JStr (toUpperCase c))" by (rule fs)
    show "n \<noteq> 0 \<longrightarrow> map_of fs ''Amount'' \<noteq> Some (JNum (Fin (of_int n)))"
      using ne by (simp add: fs)
    show "toFixed2 (Fin (of_int n / 100)) =
          (if n < 0 then ''-'' else []) @ decimal (nat \<bar>n\<bar> div 100) @ ''.'' @
          [digit (nat \<bar>n\<bar> mod 100 div 10), digit (nat \<bar>n\<bar> mod 10)]"
      by (rule toFixed2_hundredths)
  qed (simp_all add: shown_def del: toFixed2.simps)
qed

subsection \<open>Evaluating the examples\<close>

lemmas example_defs =
  env0_def env_mail_down_def env_airtable_down_def charge_failed_request_def
  customer_created_request_def malformed_request_def charge_failed_event_def
  customer_created_event_def charge_failed_body_def customer_created_body_def dq_def
  payment_4999_def empty_payment_def currency_only_payment_def example_alert_def
  example_fields_def read_event_def failure_event_types_def mailOptions_def emailContent_def
  failed_payment_fields_def

subsection \<open>The claims\<close>

text \<open>
  C1. The email sink never throws, whatever the payload and the mail service do; when
  building or sending the mail throws, the last entry of the log buffer is the entry of
  level \<open>Error\<close> with message \<^verbatim>\<open>Error sending Gmail alert: <message>\<close>. For a verified
  event of a failure type whose mail send throws while the record is created, the webhook
  answers 200 \<^verbatim>\<open>{received: true}\<close>; the log buffer holds that error-level entry, followed
  by the info entries of the record sink and of the processing routine; and the calls made
  are the mail send followed by the record creation.
\<close>

theorem email_sink_failure_contained:
  "fst (sendFailedPaymentAlert e pd st) = Inr () \<and>
   (mailOptions e pd = Inl err \<or> (mailOptions e pd = Inr opts \<and> sendMail e opts = Inl err) \<longrightarrow>
      last (logs (snd (sendFailedPaymentAlert e pd st))) =
        \<lparr>timestamp = toISOString e, level = Error,
         message = ''Error sending Gmail alert: '' @ error_message err\<rparr>) \<and>
   (read_event e req = Inr ev \<and> ev_type ev \<in> set failure_event_types \<and>
    mailOptions e (ev_object ev) = Inr opts' \<and> sendMail e opts' = Inl err' \<and>
    failed_payment_fields e (ev_object ev) = Inr fs \<and> create e ''Failed Payments'' fs = Inr rid \<longrightarrow>
      fst (post_webhook e req st) = Inr \<lparr>status = 200, sent = Json [(''received'', JBool True)]\<rparr> \<and>
      \<lparr>timestamp = toISOString e, level = Error,
       message = ''Error sending Gmail alert: '' @ error_message err'\<rparr>
        \<in> set (logs (snd (post_webhook e req st))) \<and>
      suffix [\<lparr>timestamp = toISOString e, level = Error,
               message = ''Error sending Gmail alert: '' @ error_message err'\<rparr>,
              \<lparr>timestamp = toISOString e, level = Info,
               message = ''Failed payment record created in Airtable: '' @ rid\<rparr>,
              \<lparr>timestamp = toISOString e, level = Info,
               message = ''Successfully processed failed payment: '' @
                         template_str (pd_id (ev_object ev))\<rparr>]
             (logs (snd (post_webhook e req st))) \<and>
      calls (snd (post_webhook e req st)) = calls st @ [SendMail opts', Create ''Failed Payments'' fs])"
proof (intro conjI impI)
  show "fst (sendFailedPaymentAlert e pd st) = Inr ()"
    by (rule sendFailedPaymentAlert_never_throws)
next
  assume "mailOptions e pd = Inl err \<or> (mailOptions e pd = Inr opts \<and> sendMail e opts = Inl err)"
  then show "last (logs (snd (sendFailedPaymentAlert e pd st))) =
        \<lparr>timestamp = toISOString e, level = Error,
         message = ''Error sending Gmail alert: '' @ error_message err\<rparr>"
    by (auto simp: sendFailedPaymentAlert_eq new_entry_def)
next
  assume h: "read_event e req = Inr ev \<and> ev_type ev \<in> set failure_event_types \<and>
    mailOptions e (ev_object ev) = Inr opts' \<and> sendMail e opts' = Inl err' \<and>
    failed_payment_fields e (ev_object ev) = Inr fs \<and> create e ''Failed Payments'' fs = Inr rid"
  define E where "E = new_entry e (''Error sending Gmail alert: '' @ error_message err') Error"
  define pd' where "pd' = ev_object ev"
  define st1 where "st1 = log e (''Processing failed payment: '' @ template_str (pd_id pd') @
                       '', Amount: $'' @ toFixed2 (div100 (toNumber (amount pd')))) Info
                       (log e (''Received Stripe webhook: '' @ ev_type ev) Info st)"
  define st2 where "st2 = log e (''Error sending Gmail alert: '' @ error_message err') Error
                                   (st1\<lparr>calls := calls st1 @ [SendMail opts']\<rparr>)"
  define st3 where "st3 = log e (''Failed payment record created in Airtable: '' @ rid) Info
                                   (st2\<lparr>calls := calls st2 @ [Create ''Failed Payments'' fs]\<rparr>)"
  define st4 where "st4 = log e (''Successfully processed failed payment: '' @ template_str (pd_id pd')) Info st3"
  have email: "sendFailedPaymentAlert e pd' st1 = (Inr (), st2)"
    using h by (simp add: sendFailedPaymentAlert_eq st2_def pd'_def)
  have rcd: "updateAirtableFailedPayment e pd' st2 = (Inr rid, st3)"
    using h by (simp add: updateAirtableFailedPayment_eq st3_def pd'_def)
  have whole: "post_webhook e req st =
      (Inr \<lparr>status = 200, sent = Json [(''received'', JBool True)]\<rparr>, st4)"
    using h email rcd
    by (simp add: webhook_recognized Let_def st4_def st3_def st2_def st1_def pd'_def)
  have "suffix [E] (logs st2)"
    unfolding st2_def E_def by (rule suffix_logs_log_Nil)
  then have "suffix [E] (logs (st2\<lparr>calls := calls st2 @ [Create ''Failed Payments'' fs]\<rparr>))"
    by simp
  then have "suffix ([E] @ [new_entry e (''Failed payment record created in Airtable: '' @ rid) Info])
      (logs st3)"
    unfolding st3_def by (rule suffix_logs_log) simp
  then have "suffix (([E] @ [new_entry e (''Failed payment record created in Airtable: '' @ rid) Info]) @
       [new_entry e (''Successfully processed failed payment: '' @ template_str (pd_id pd')) Info])
      (logs st4)"
    unfolding st4_def by (rule suffix_logs_log) simp
  then have suf: "suffix [E, new_entry e (''Failed payment record created in Airtable: '' @ rid) Info,
       new_entry e (''Successfully processed failed payment: '' @ template_str (pd_id pd')) Info]
      (logs st4)"
    by simp
  then have mem: "E \<in> set (logs st4)"
    by (auto simp: suffix_def)
  have "calls st4 = calls st @ [SendMail opts', Create ''Failed Payments'' fs]"
    by (simp add: st4_def st3_def st2_def st1_def)
  with whole mem suf
  show "fst (post_webhook e req st) = Inr \<lparr>status = 200, sent = Json [(''received'', JBool True)]\<rparr>"
    and "\<lparr>timestamp = toISOString e, level = Error,
       message = ''Error sending Gmail alert: '' @ error_message err'\<rparr>
        \<in> set (logs (snd (post_webhook e req st)))"
    and "suffix [\<lparr>timestamp = toISOString e, level = Error,
               message = ''Error sending Gmail alert: '' @ error_message err'\<rparr>,
              \<lparr>timestamp = toISOString e, level = Info,
               message = ''Failed payment record created in Airtable: '' @ rid\<rparr>,
              \<lparr>timestamp = toISOString e, level = Info,
               message = ''Successfully processed failed payment: '' @
                         template_str (pd_id (ev_object ev))\<rparr>]
             (logs (snd (post_webhook e req st)))"
    and "calls (snd (post_webhook e req st)) = calls st @ [SendMail opts', Create ''Failed Payments'' fs]"
    by (simp_all add: E_def new_entry_def pd'_def)
qed

theorem email_sink_failure_contained_witness:
  "read_event env_mail_down charge_failed_request = Inr charge_failed_event \<and>
   ev_type charge_failed_event \<in> set failure_event_types \<and>
   mailOptions env_mail_down (ev_object charge_failed_event) = Inr example_alert \<and>
   sendMail env_mail_down example_alert = Inl (ServiceError ''Invalid login'') \<and>
   failed_payment_fields env_mail_down (ev_object charge_failed_event) = Inr example_fields \<and>
   create env_mail_down ''Failed Payments'' example_fields = Inr ''rec1'' \<and>
   fst (sendFailedPaymentAlert env_mail_down payment_4999 init_state) = Inr () \<and>
   last (logs (snd (sendFailedPaymentAlert env_mail_down payment_4999 init_state))) =
     \<lparr>timestamp = ''2025-01-01T00:00:00.000Z'', level = Error,
      message = ''Error sending Gmail alert: Invalid login''\<rparr> \<and>
   fst (post_webhook env_mail_down charge_failed_request init_state) =
     Inr \<lparr>status = 200, sent = Json [(''received'', JBool True)]\<rparr> \<and>
   \<lparr>timestamp = ''2025-01-01T00:00:00.000Z'', level = Error,
    message = ''Error sending Gmail alert: Invalid login''\<rparr>
     \<in> set (logs (snd (post_webhook env_mail_down charge_failed_request init_state))) \<and>
   calls (snd (post_webhook env_mail_down charge_failed_request init_state)) =
     calls init_state @ [SendMail example_alert, Create ''Failed Payments'' example_fields]"
  using email_sink_failure_contained [of env_mail_down payment_4999 init_state
      "ServiceError ''Invalid login''" example_alert charge_failed_request charge_failed_event
      example_alert "ServiceError ''Invalid login''" example_fields "''rec1''"]
  by (simp add: example_defs)

text \<open>
  C2. When building the fields or creating the record throws, the record sink appends the
  entry of level \<open>Error\<close> with message \<^verbatim>\<open>Error creating Airtable record: <message>\<close> and
  throws the same error again. For a verified event of a failure type the error reaches the
  webhook handler: the response is 400 with \<^verbatim>\<open>Webhook error: <message>\<close>, the log buffer
  ends with three entries of level \<open>Error\<close> (of the record sink, the processing routine and
  the handler, each with the underlying message), and a mail that was sent before stays
  sent.
\<close>

theorem record_sink_failure_propagates:
  "(failed_payment_fields e pd = Inl err \<or>
    (failed_payment_fields e pd = Inr fs \<and> create e ''Failed Payments'' fs = Inl err) \<longrightarrow>
      fst (updateAirtableFailedPayment e pd st') = Inl err \<and>
      last (logs (snd (updateAirtableFailedPayment e pd st'))) =
        \<lparr>timestamp = toISOString e, level = Error,
         message = ''Error creating Airtable record: '' @ error_message err\<rparr>) \<and>
   (read_event e req = Inr ev \<and> ev_type ev \<in> set failure_event_types \<and>
    (failed_payment_fields e (ev_object ev) = Inl err \<or>
     (failed_payment_fields e (ev_object ev) = Inr fs \<and> create e ''Failed Payments'' fs = Inl err)) \<longrightarrow>
      fst (post_webhook e req st) =
        Inr \<lparr>status = 400, sent = Send (''Webhook error: '' @ error_message err)\<rparr> \<and>
      suffix [\<lparr>timestamp = toISOString e, level = Error,
               message = ''Error creating Airtable record: '' @ error_message err\<rparr>,
              \<lparr>timestamp = toISOString e, level = Error,
               message = ''Error processing failed payment: '' @ error_message err\<rparr>,
              \<lparr>timestamp = toISOString e, level = Error,
               message = ''Webhook error: '' @ error_message err\<rparr>]
             (logs (snd (post_webhook e req st))) \<and>
      (mailOptions e (ev_object ev) = Inr opts \<and> sendMail e opts = Inr () \<longrightarrow>
         SendMail opts \<in> set (calls (snd (post_webhook e req st)))))"
proof (intro conjI impI)
  assume h: "failed_payment_fields e pd = Inl err \<or>
    (failed_payment_fields e pd = Inr fs \<and> create e ''Failed Payments'' fs = Inl err)"
  show "fst (updateAirtableFailedPayment e pd st') = Inl err"
    using h by (rule updateAirtableFailedPayment_throws)
  show "last (logs (snd (updateAirtableFailedPayment e pd st'))) =
        \<lparr>timestamp = toISOString e, level = Error,
         message = ''Error creating Airtable record: '' @ error_message err\<rparr>"
    using updateAirtableFailedPayment_throws(2) [OF h] by (simp add: logs_log new_entry_def)
next
  assume h: "read_event e req = Inr ev \<and> ev_type ev \<in> set failure_event_types \<and>
    (failed_payment_fields e (ev_object ev) = Inl err \<or>
     (failed_payment_fields e (ev_object ev) = Inr fs \<and> create e ''Failed Payments'' fs = Inl err))"
  then have thrown: "failed_payment_fields e (ev_object ev) = Inl err \<or>
     (failed_payment_fields e (ev_object ev) = Inr fs \<and> create e ''Failed Payments'' fs = Inl err)"
    by simp
  define pd' where "pd' = ev_object ev"
  define st2 where "st2 = snd (sendFailedPaymentAlert e pd'
     (log e (''Processing failed payment: '' @ template_str (pd_id pd') @
                       '', Amount: $'' @ toFixed2 (div100 (toNumber (amount pd')))) Info
                       (log e (''Received Stripe webhook: '' @ ev_type ev) Info st)))"
  define st3 where "st3 = snd (updateAirtableFailedPayment e pd' st2)"
  define st4 where "st4 = log e (''Error processing failed payment: '' @ error_message err) Error st3"
  define st5 where "st5 = log e (''Webhook error: '' @ error_message err) Error st4"
  have r: "fst (updateAirtableFailedPayment e pd' st2) = Inl err"
    using thrown unfolding pd'_def by (rule updateAirtableFailedPayment_throws)
  have whole: "post_webhook e req st =
      (Inr \<lparr>status = 400, sent = Send (''Webhook error: '' @ error_message err)\<rparr>, st5)"
    using h r
    by (simp add: webhook_recognized Let_def st5_def st4_def st3_def st2_def pd'_def)
  have "logs st3 = logs (log e (''Error creating Airtable record: '' @ error_message err) Error st2)"
    unfolding st3_def pd'_def using thrown by (rule updateAirtableFailedPayment_throws)
  then have "suffix [new_entry e (''Error creating Airtable record: '' @ error_message err) Error] (logs st3)"
    by (simp add: suffix_logs_log_Nil)
  then have "suffix ([new_entry e (''Error creating Airtable record: '' @ error_message err) Error] @
       [new_entry e (''Error processing failed payment: '' @ error_message err) Error]) (logs st4)"
    unfolding st4_def by (rule suffix_logs_log) simp
  then have "suffix (([new_entry e (''Error creating Airtable record: '' @ error_message err) Error] @
       [new_entry e (''Error processing failed payment: '' @ error_message err) Error]) @
       [new_entry e (''Webhook error: '' @ error_message err) Error]) (logs st5)"
    unfolding st5_def by (rule suffix_logs_log) simp
  with whole show "fst (post_webhook e req st) =
        Inr \<lparr>status = 400, sent = Send (''Webhook error: '' @ error_message err)\<rparr>"
    and "suffix [\<lparr>timestamp = toISOString e, level = Error,
               message = ''Error creating Airtable record: '' @ error_message err\<rparr>,
              \<lparr>timestamp = toISOString e, level = Error,
               message = ''Error processing failed payment: '' @ error_message err\<rparr>,
              \<lparr>timestamp = toISOString e, level = Error,
               message = ''Webhook error: '' @ error_message err\<rparr>]
             (logs (snd (post_webhook e req st)))"
    by (simp_all add: new_entry_def)
  assume m: "mailOptions e (ev_object ev) = Inr opts \<and> sendMail e opts = Inr ()"
  then have "SendMail opts \<in> set (calls st2)"
    by (simp add: st2_def pd'_def calls_sendFailedPaymentAlert)
  moreover have "set (calls st2) \<subseteq> set (calls st3)"
    by (auto simp: st3_def calls_updateAirtableFailedPayment split: sum.splits)
  ultimately show "SendMail opts \<in> set (calls (snd (post_webhook e req st)))"
    using whole by (auto simp: st5_def st4_def)
qed

theorem record_sink_failure_propagates_witness:
  "read_event env_airtable_down charge_failed_request = Inr charge_failed_event \<and>
   ev_type charge_failed_event \<in> set failure_event_types \<and>
   failed_payment_fields env_airtable_down (ev_object charge_failed_event) = Inr example_fields \<and>
   create env_airtable_down ''Failed Payments'' example_fields = Inl (ServiceError ''NOT_AUTHORIZED'') \<and>
   mailOptions env_airtable_down (ev_object charge_failed_event) = Inr example_alert \<and>
   sendMail env_airtable_down example_alert = Inr () \<and>
   fst (updateAirtableFailedPayment env_airtable_down (ev_object charge_failed_event) init_state) =
     Inl (ServiceError ''NOT_AUTHORIZED'') \<and>
   last (logs (snd (updateAirtableFailedPayment env_airtable_down
                      (ev_object charge_failed_event) init_state))) =
     \<lparr>timestamp = ''2025-01-01T00:00:00.000Z'', level = Error,
      message = ''Error creating Airtable record: NOT_AUTHORIZED''\<rparr> \<and>
   fst (post_webhook env_airtable_down charge_failed_request init_state) =
     Inr \<lparr>status = 400, sent = Send ''Webhook error: NOT_AUTHORIZED''\<rparr> \<and>
   suffix [\<lparr>timestamp = ''2025-01-01T00:00:00.000Z'', level = Error,
            message = ''Error creating Airtable record: NOT_AUTHORIZED''\<rparr>,
           \<lparr>timestamp = ''2025-01-01T00:00:00.000Z'', level = Error,
            message = ''Error processing failed payment: NOT_AUTHORIZED''\<rparr>,
           \<lparr>timestamp = ''2025-01-01T00:00:00.000Z'', level = Error,
            message = ''Webhook error: NOT_AUTHORIZED''\<rparr>]
          (logs (snd (post_webhook env_airtable_down charge_failed_request init_state))) \<and>
   SendMail example_alert
     \<in> set (calls (snd (post_webhook env_airtable_down charge_failed_request init_state)))"
  using record_sink_failure_propagates [of env_airtable_down "ev_object charge_failed_event"
      "ServiceError ''NOT_AUTHORIZED''" example_fields init_state charge_failed_request
      charge_failed_event init_state example_alert]
  by (simp add: example_defs)

text \<open>
  C3. For a verified event of one of the four failure types the email sink runs first (and
  returns normally), the record sink runs on the state the email sink left, and the final
  state is the record sink's state plus the closing log entries; the external calls made are
  the mail send (when the mail could be built) followed by the record creation (when the
  fields could be built). For a verified event of any other type neither sink runs: no
  external call is made and the response is 200 \<^verbatim>\<open>{received: true}\<close>.
\<close>

theorem dispatcher_routing:
  "read_event e req = Inr ev \<longrightarrow>
     (ev_type ev \<in> set failure_event_types \<longrightarrow>
        (let pd = ev_object ev;
             st1 = log e (''Processing failed payment: '' @ template_str (pd_id pd) @
                          '', Amount: $'' @ toFixed2 (div100 (toNumber (amount pd)))) Info
                     (log e (''Received Stripe webhook: '' @ ev_type ev) Info st);
             email = sendFailedPaymentAlert e pd st1;
             rcd = updateAirtableFailedPayment e pd (snd email)
         in fst email = Inr () \<and>
            snd (post_webhook e req st) =
              (case fst rcd of
                 Inl err \<Rightarrow> log e (''Webhook error: '' @ error_message err) Error
                             (log e (''Error processing failed payment: '' @ error_message err) Error
                                (snd rcd))
               | Inr rid \<Rightarrow> log e (''Successfully processed failed payment: '' @
                                  template_str (pd_id pd)) Info (snd rcd)) \<and>
            calls (snd (post_webhook e req st)) =
              calls st @
              (case mailOptions e pd of Inl err \<Rightarrow> [] | Inr opts \<Rightarrow> [SendMail opts]) @
              (case failed_payment_fields e pd of
                 Inl err \<Rightarrow> [] | Inr fs \<Rightarrow> [Create ''Failed Payments'' fs]))) \<and>
     (ev_type ev \<notin> set failure_event_types \<longrightarrow>
        post_webhook e req st =
          (Inr \<lparr>status = 200, sent = Json [(''received'', JBool True)]\<rparr>,
           log e (''Unhandled event type: '' @ ev_type ev) Info
             (log e (''Received Stripe webhook: '' @ ev_type ev) Info st)) \<and>
        calls (snd (post_webhook e req st)) = calls st)"
proof (intro impI conjI)
  assume ev: "read_event e req = Inr ev" and ty: "ev_type ev \<in> set failure_event_types"
  show "let pd = ev_object ev;
             st1 = log e (''Processing failed payment: '' @ template_str (pd_id pd) @
                          '', Amount: $'' @ toFixed2 (div100 (toNumber (amount pd)))) Info
                     (log e (''Received Stripe webhook: '' @ ev_type ev) Info st);
             email = sendFailedPaymentAlert e pd st1;
             rcd = updateAirtableFailedPayment e pd (snd email)
         in fst email = Inr () \<and>
            snd (post_webhook e req st) =
              (case fst rcd of
                 Inl err \<Rightarrow> log e (''Webhook error: '' @ error_message err) Error
                             (log e (''Error processing failed payment: '' @ error_message err) Error
                                (snd rcd))
               | Inr rid \<Rightarrow> log e (''Successfully processed failed payment: '' @
                                  template_str (pd_id pd)) Info (snd rcd)) \<and>
            calls (snd (post_webhook e req st)) =
              calls st @
              (case mailOptions e pd of Inl err \<Rightarrow> [] | Inr opts \<Rightarrow> [SendMail opts]) @
              (case failed_payment_fields e pd of
                 Inl err \<Rightarrow> [] | Inr fs \<Rightarrow> [Create ''Failed Payments'' fs])"
    using ev ty
    by (simp add: webhook_recognized Let_def sendFailedPaymentAlert_never_throws
        calls_sendFailedPaymentAlert calls_updateAirtableFailedPayment split: sum.splits)
next
  assume ev: "read_event e req = Inr ev" and ty: "ev_type ev \<notin> set failure_event_types"
  then show "post_webhook e req st =
          (Inr \<lparr>status = 200, sent = Json [(''received'', JBool True)]\<rparr>,
           log e (''Unhandled event type: '' @ ev_type ev) Info
             (log e (''Received Stripe webhook: '' @ ev_type ev) Info st))"
    by (simp add: post_webhook_eq dispatch_eq)
  then show "calls (snd (post_webhook e req st)) = calls st"
    by simp
qed

theorem dispatcher_routing_witness:
  "read_event env0 charge_failed_request = Inr charge_failed_event \<and>
   ev_type charge_failed_event \<in> set failure_event_types \<and>
   read_event env0 customer_created_request = Inr customer_created_event \<and>
   ev_type customer_created_event \<notin> set failure_event_types \<and>
   calls (snd (post_webhook env0 charge_failed_request init_state)) =
     [SendMail example_alert, Create ''Failed Payments'' example_fields] \<and>
   fst (post_webhook env0 customer_created_request init_state) =
     Inr \<lparr>status = 200, sent = Json [(''received'', JBool True)]\<rparr> \<and>
   calls (snd (post_webhook env0 customer_created_request init_state)) = []"
  using dispatcher_routing [of env0 charge_failed_request charge_failed_event init_state]
    dispatcher_routing [of env0 customer_created_request customer_created_event init_state]
  by (simp add: example_defs init_state_def Let_def sendFailedPaymentAlert_eq
      updateAirtableFailedPayment_eq)

text \<open>
  C4. After an append the buffer holds at most 100 entries: in every state reached from the
  empty buffer by appends, and from any buffer of at most 100 entries. An append to a buffer
  that holds 100 entries drops exactly the oldest one and keeps the other 99 and the new
  entry in insertion order; below 100 nothing is dropped.
\<close>

theorem log_buffer_bound_fifo:
  "length (logs (foldl (\<lambda>s (msg, lvl). log e msg lvl s) init_state ms)) \<le> 100 \<and>
   (length (logs st) \<le> 100 \<longrightarrow> length (logs (log e msg lvl st)) \<le> 100) \<and>
   (length (logs st) = 100 \<longrightarrow>
      logs (log e msg lvl st) = tl (logs st) @ [new_entry e msg lvl]) \<and>
   (length (logs st) < 100 \<longrightarrow>
      logs (log e msg lvl st) = logs st @ [new_entry e msg lvl])"
proof -
  have "length (logs init_state) \<le> 100"
    by (simp add: init_state_def)
  then have "length (logs (foldl (\<lambda>s (msg, lvl). log e msg lvl s) init_state ms)) \<le> 100"
    by (rule length_logs_foldl)
  then show ?thesis
    by (simp add: logs_log)
qed

theorem log_buffer_bound_fifo_witness:
  "length (logs full_state) \<le> 100 \<and> length (logs full_state) = 100 \<and>
   length (logs init_state) < 100 \<and>
   length (logs (log env0 ''new'' Error full_state)) \<le> 100 \<and>
   logs (log env0 ''new'' Error full_state) = tl (logs full_state) @ [new_entry env0 ''new'' Error] \<and>
   logs (log env0 ''new'' Error init_state) = logs init_state @ [new_entry env0 ''new'' Error]"
  using log_buffer_bound_fifo [of env0 "[]" full_state "''new''" Error]
    log_buffer_bound_fifo [of env0 "[]" init_state "''new''" Error]
  by (simp add: full_state_def init_state_def)




text \<open>
  C6 fails as stated: for the amount 4999 the Amount field of the record is the quotient
  4999 / 100, not the integer 4999.
\<close>

theorem sink_amount_counterexample:
  "amount payment_4999 = Val 4999 \<and>
   failed_payment_fields env0 payment_4999 = Inr example_fields \<and>
   map_of example_fields ''Amount'' = Some (JNum (Fin (4999 / 100))) \<and>
   map_of example_fields ''Amount'' \<noteq> Some (JNum (Fin 4999))"
  by (simp add: example_fields_def failed_payment_fields_def payment_4999_def empty_payment_def)

text \<open>
  C6, amended. For a payload with an integer amount \<open>n\<close> of magnitude below \<open>2^52\<close> and a
  string currency, the mail shows \<^verbatim>\<open>(n / 100).toFixed(2)\<close>, the two-decimal numeral of
  \<open>n / 100\<close>, in its subject and in its Amount line, and the record's numeric Amount field
  is the unformatted quotient \<open>n / 100\<close>, which differs from the minor-unit integer \<open>n\<close>
  unless \<open>n = 0\<close>.
\<close>

theorem sink_amount_is_quotient:
  "amount pd = Val n \<and> \<bar>n\<bar> < 2 ^ 52 \<and> currency pd = Val c \<longrightarrow>
     (\<exists>opts fs pre post. mailOptions e pd = Inr opts \<and> failed_payment_fields e pd = Inr fs \<and>
        subject opts = siren @ '' Payment Failed: $'' @ toFixed2 (Fin (of_int n / 100)) \<and>
        html opts = pre @ ''<p><strong>Amount:</strong> $'' @ toFixed2 (Fin (of_int n / 100)) @
                    '' '' @ post \<and>
        toFixed2 (Fin (of_int n / 100)) =
          (if n < 0 then ''-'' else []) @ decimal (nat \<bar>n\<bar> div 100) @ ''.'' @
          [digit (nat \<bar>n\<bar> mod 100 div 10), digit (nat \<bar>n\<bar> mod 10)] \<and>
        map_of fs ''Amount'' = Some (JNum (Fin (of_int n / 100))) \<and>
        (n \<noteq> 0 \<longrightarrow> map_of fs ''Amount'' \<noteq> Some (JNum (Fin (of_int n)))))"
proof
  assume h: "amount pd = Val n \<and> \<bar>n\<bar> < 2 ^ 52 \<and> currency pd = Val c"
  then have "amount pd = Val n \<and> currency pd = Val c" by simp
  with sink_amount_parts [where pd = pd and n = n and c = c and e = e]
  obtain opts fs pre post where p: "mailOptions e pd = Inr opts" "failed_payment_fields e pd = Inr fs"
    "subject opts = siren @ '' Payment Failed: $'' @ toFixed2 (Fin (of_int n / 100))"
    "html opts = pre @ ''<p><strong>Amount:</strong> $'' @ toFixed2 (Fin (of_int n / 100)) @
                    '' '' @ toUpperCase c @ ''</p>'' @ post"
    "toFixed2 (Fin (of_int n / 100)) =
          (if n < 0 then ''-'' else []) @ decimal (nat \<bar>n\<bar> div 100) @ ''.'' @
          [digit (nat \<bar>n\<bar> mod 100 div 10), digit (nat \<bar>n\<bar> mod 10)]"
    "map_of fs ''Amount'' = Some (JNum (Fin (of_int n / 100)))"
    "n \<noteq> 0 \<longrightarrow> map_of fs ''Amount'' \<noteq> Some (JNum (Fin (of_int n)))"
    by blast
  show "\<exists>opts fs pre post. mailOptions e pd = Inr opts \<and> failed_payment_fields e pd = Inr fs \<and>
        subject opts = siren @ '' Payment Failed: $'' @ toFixed2 (Fin (of_int n / 100)) \<and>
        html opts = pre @ ''<p><strong>Amount:</strong> $'' @ toFixed2 (Fin (of_int n / 100)) @
                    '' '' @ post \<and>
        toFixed2 (Fin (of_int n / 100)) =
          (if n < 0 then ''-'' else []) @ decimal (nat \<bar>n\<bar> div 100) @ ''.'' @
          [digit (nat \<bar>n\<bar> mod 100 div 10), digit (nat \<bar>n\<bar> mod 10)] \<and>
        map_of fs ''Amount'' = Some (JNum (Fin (of_int n / 100))) \<and>
        (n \<noteq> 0 \<longrightarrow> map_of fs ''Amount'' \<noteq> Some (JNum (Fin (of_int n))))"
    apply (rule exI [of _ opts])
    apply (rule exI [of _ fs])
    apply (rule exI [of _ pre])
    apply (rule exI [of _ "toUpperCase c @ ''</p>'' @ post"])
    apply (intro conjI)
    apply (rule p)+
    done
qed

theorem sink_amount_is_quotient_witness:
  "amount payment_4999 = Val 4999 \<and> \<bar>4999 :: int\<bar> < 2 ^ 52 \<and>
   currency payment_4999 = Val ''usd'' \<and>
   (\<exists>opts fs. mailOptions env0 payment_4999 = Inr opts \<and>
      failed_payment_fields env0 payment_4999 = Inr fs \<and>
      subject opts = siren @ '' Payment Failed: $49.99'' \<and>
      map_of fs ''Amount'' = Some (JNum (Fin (4999 / 100))) \<and>
      map_of fs ''Amount'' \<noteq> Some (JNum (Fin 4999)))"
proof -
  have h: "amount payment_4999 = Val 4999 \<and> \<bar>4999 :: int\<bar> < 2 ^ 52 \<and>
      currency payment_4999 = Val ''usd''"
    by (simp add: payment_4999_def empty_payment_def)
  from sink_amount_is_quotient [where pd = payment_4999 and n = 4999 and c = "''usd''" and e = env0] h
  obtain opts fs where "mailOptions env0 payment_4999 = Inr opts"
    "failed_payment_fields env0 payment_4999 = Inr fs"
    "subject opts = siren @ '' Payment Failed: $'' @ toFixed2 (Fin (of_int 4999 / 100))"
    "map_of fs ''Amount'' = Some (JNum (Fin (of_int 4999 / 100)))"
    "map_of fs ''Amount'' \<noteq> Some (JNum (Fin (of_int 4999)))"
    by auto
  then have "mailOptions env0 payment_4999 = Inr opts \<and>
      failed_payment_fields env0 payment_4999 = Inr fs \<and>
      subject opts = siren @ '' Payment Failed: $49.99'' \<and>
      map_of fs ''Amount'' = Some (JNum (Fin (4999 / 100))) \<and>
      map_of fs ''Amount'' \<noteq> Some (JNum (Fin 4999))"
    using toFixed2_4999 by (simp del: toFixed2.simps)
  with h show ?thesis by blast
qed




text \<open>
  C8. A payload with amount 4999 and currency \<^verbatim>\<open>usd\<close> is shown as \<^verbatim>\<open>49.99\<close> and
  \<^verbatim>\<open>USD\<close>: in the subject and the Amount line of the mail, and in the Currency field of
  the record.
\<close>

theorem amount_currency_round_trip:
  "amount pd = Val 4999 \<and> currency pd = Val ''usd'' \<longrightarrow>
     toFixed2 (div100 (toNumber (amount pd))) = ''49.99'' \<and>
     prop_toUpperCase (currency pd) = Inr ''USD'' \<and>
     (\<exists>opts fs pre post.
        mailOptions e pd = Inr opts \<and> failed_payment_fields e pd = Inr fs \<and>
        subject opts = siren @ '' Payment Failed: $49.99'' \<and>
        html opts = pre @ ''<p><strong>Amount:</strong> $49.99 USD</p>'' @ post \<and>
        map_of fs ''Currency'' = Some (JStr ''USD''))"
proof
  assume h: "amount pd = Val 4999 \<and> currency pd = Val ''usd''"
  have shown: "toFixed2 (div100 (toNumber (amount pd))) = ''49.99''"
    using h toFixed2_4999 by (simp del: toFixed2.simps)
  have cur: "prop_toUpperCase (currency pd) = Inr ''USD''"
    using h by (simp add: toUpperCase_usd)
  have "amount pd = Val 4999 \<and> currency pd = Val ''usd''" by (rule h)
  with sink_amount_parts [where pd = pd and n = 4999 and c = "''usd''" and e = e]
  obtain opts fs pre post where p: "mailOptions e pd = Inr opts" "failed_payment_fields e pd = Inr fs"
    "subject opts = siren @ '' Payment Failed: $'' @ toFixed2 (Fin (of_int 4999 / 100))"
    "html opts = pre @ ''<p><strong>Amount:</strong> $'' @ toFixed2 (Fin (of_int 4999 / 100)) @
                    '' '' @ toUpperCase ''usd'' @ ''</p>'' @ post"
    "map_of fs ''Currency'' = Some (JStr (toUpperCase ''usd''))"
    by blast
  have "subject opts = siren @ '' Payment Failed: $49.99''"
    using p(3) toFixed2_4999 by (simp del: toFixed2.simps)
  moreover have "html opts = pre @ ''<p><strong>Amount:</strong> $49.99 USD</p>'' @ post"
    using p(4) toFixed2_4999 by (simp add: toUpperCase_usd del: toFixed2.simps)
  moreover have "map_of fs ''Currency'' = Some (JStr ''USD'')"
    using p(5) by (simp add: toUpperCase_usd)
  ultimately show "toFixed2 (div100 (toNumber (amount pd))) = ''49.99'' \<and>
     prop_toUpperCase (currency pd) = Inr ''USD'' \<and>
     (\<exists>opts fs pre post.
        mailOptions e pd = Inr opts \<and> failed_payment_fields e pd = Inr fs \<and>
        subject opts = siren @ '' Payment Failed: $49.99'' \<and>
        html opts = pre @ ''<p><strong>Amount:</strong> $49.99 USD</p>'' @ post \<and>
        map_of fs ''Currency'' = Some (JStr ''USD''))"
    using shown cur p(1,2) by blast
qed

theorem amount_currency_round_trip_witness:
  "amount payment_4999 = Val 4999 \<and> currency payment_4999 = Val ''usd'' \<and>
   toFixed2 (div100 (toNumber (amount payment_4999))) = ''49.99'' \<and>
   prop_toUpperCase (currency payment_4999) = Inr ''USD'' \<and>
   (\<exists>opts fs. mailOptions env0 payment_4999 = Inr opts \<and>
      failed_payment_fields env0 payment_4999 = Inr fs \<and>
      subject opts = siren @ '' Payment Failed: $49.99'' \<and>
      map_of fs ''Currency'' = Some (JStr ''USD''))"
proof -
  have h: "amount payment_4999 = Val 4999 \<and> currency payment_4999 = Val ''usd''"
    by (simp add: payment_4999_def empty_payment_def)
  with amount_currency_round_trip [where pd = payment_4999 and e = env0]
  show ?thesis by blast
qed

text \<open>
  C9. With no webhook secret (unset or empty) the event is whatever \<^verbatim>\<open>JSON.parse\<close>
  makes of the body: the signature header plays no part. When the parse throws, the response
  is 400 with \<^verbatim>\<open>Webhook error: <message>\<close>, the only effect is the error log entry, and
  no external call is made; when it returns an event, that event is dispatched.
\<close>

theorem unauthenticated_fallback:
  "STRIPE_WEBHOOK_SECRET e = None \<or> STRIPE_WEBHOOK_SECRET e = Some [] \<longrightarrow>
     read_event e req = JSON_parse e (body req) \<and>
     read_event e (req\<lparr>stripe_signature := sig\<rparr>) = read_event e req \<and>
     (JSON_parse e (body req) = Inl err \<longrightarrow>
        post_webhook e req st =
          (Inr \<lparr>status = 400, sent = Send (''Webhook error: '' @ error_message err)\<rparr>,
           log e (''Webhook error: '' @ error_message err) Error st) \<and>
        calls (snd (post_webhook e req st)) = calls st) \<and>
     (JSON_parse e (body req) = Inr ev \<longrightarrow>
        snd (post_webhook e req st) =
          (let r = dispatch e ev (log e (''Received Stripe webhook: '' @ ev_type ev) Info st)
           in case fst r of
                Inl err \<Rightarrow> log e (''Webhook error: '' @ error_message err) Error (snd r)
              | Inr u \<Rightarrow> snd r))"
proof
  assume h: "STRIPE_WEBHOOK_SECRET e = None \<or> STRIPE_WEBHOOK_SECRET e = Some []"
  have r: "read_event e rq = JSON_parse e (body rq)" for rq
    using h by (rule read_event_no_secret)
  show "read_event e req = JSON_parse e (body req) \<and>
     read_event e (req\<lparr>stripe_signature := sig\<rparr>) = read_event e req \<and>
     (JSON_parse e (body req) = Inl err \<longrightarrow>
        post_webhook e req st =
          (Inr \<lparr>status = 400, sent = Send (''Webhook error: '' @ error_message err)\<rparr>,
           log e (''Webhook error: '' @ error_message err) Error st) \<and>
        calls (snd (post_webhook e req st)) = calls st) \<and>
     (JSON_parse e (body req) = Inr ev \<longrightarrow>
        snd (post_webhook e req st) =
          (let r = dispatch e ev (log e (''Received Stripe webhook: '' @ ev_type ev) Info st)
           in case fst r of
                Inl err \<Rightarrow> log e (''Webhook error: '' @ error_message err) Error (snd r)
              | Inr u \<Rightarrow> snd r))"
    by (simp add: r post_webhook_eq Let_def split: sum.splits)
qed

theorem unauthenticated_fallback_witness:
  "STRIPE_WEBHOOK_SECRET env0 = None \<and>
   JSON_parse env0 (body malformed_request) =
     Inl (ServiceError ''Unexpected token n in JSON at position 1'') \<and>
   read_event env0 malformed_request = JSON_parse env0 (body malformed_request) \<and>
   post_webhook env0 malformed_request init_state =
     (Inr \<lparr>status = 400,
           sent = Send ''Webhook error: Unexpected token n in JSON at position 1''\<rparr>,
      log env0 ''Webhook error: Unexpected token n in JSON at position 1'' Error init_state) \<and>
   calls (snd (post_webhook env0 malformed_request init_state)) = calls init_state"
  using unauthenticated_fallback [where e = env0 and req = malformed_request and st = init_state
      and err = "ServiceError ''Unexpected token n in JSON at position 1''"]
  by (simp add: example_defs)

text \<open>
  C10. In \<^verbatim>\<open>POST /test\<close> an error of the mail send is not swallowed: the response is 500
  \<^verbatim>\<open>{success: false, error: <message>}\<close>, the mail send is the only external call made
  (no record creation is attempted), whereas the production email sink returns normally on
  every input.
\<close>

theorem test_email_failure_not_contained:
  "sendMail e (test_mail e) = Inl err \<longrightarrow>
     post_test e st =
       (Inr \<lparr>status = 500,
             sent = Json [(''success'', JBool False), (''error'', JStr (error_message err))]\<rparr>,
        log e (''Manual test failed: '' @ error_message err) Error
          ((log e ''Manual test run initiated'' Info st)
             \<lparr>calls := calls st @ [SendMail (test_mail e)]\<rparr>)) \<and>
     calls (snd (post_test e st)) = calls st @ [SendMail (test_mail e)] \<and>
     (\<forall>table fs. Create table fs \<in> set (calls (snd (post_test e st))) \<longrightarrow>
        Create table fs \<in> set (calls st)) \<and>
     fst (sendFailedPaymentAlert e pd st) = Inr ()"
proof
  assume h: "sendMail e (test_mail e) = Inl err"
  have whole: "post_test e st =
       (Inr \<lparr>status = 500,
             sent = Json [(''success'', JBool False), (''error'', JStr (error_message err))]\<rparr>,
        log e (''Manual test failed: '' @ error_message err) Error
          ((log e ''Manual test run initiated'' Info st)
             \<lparr>calls := calls st @ [SendMail (test_mail e)]\<rparr>))"
    using h by (simp add: post_test_def seq_def try_catch_def transporter_sendMail_def)
  then have "calls (snd (post_test e st)) = calls st @ [SendMail (test_mail e)]"
    by simp
  with whole show "post_test e st =
       (Inr \<lparr>status = 500,
             sent = Json [(''success'', JBool False), (''error'', JStr (error_message err))]\<rparr>,
        log e (''Manual test failed: '' @ error_message err) Error
          ((log e ''Manual test run initiated'' Info st)
             \<lparr>calls := calls st @ [SendMail (test_mail e)]\<rparr>)) \<and>
     calls (snd (post_test e st)) = calls st @ [SendMail (test_mail e)] \<and>
     (\<forall>table fs. Create table fs \<in> set (calls (snd (post_test e st))) \<longrightarrow>
        Create table fs \<in> set (calls st)) \<and>
     fst (sendFailedPaymentAlert e pd st) = Inr ()"
    by (simp add: sendFailedPaymentAlert_never_throws)
qed

theorem test_email_failure_not_contained_witness:
  "sendMail env_mail_down (test_mail env_mail_down) = Inl (ServiceError ''Invalid login'') \<and>
   fst (post_test env_mail_down init_state) =
     Inr \<lparr>status = 500,
          sent = Json [(''success'', JBool False), (''error'', JStr ''Invalid login'')]\<rparr> \<and>
   calls (snd (post_test env_mail_down init_state)) = [SendMail (test_mail env_mail_down)]"
  using test_email_failure_not_contained [where e = env_mail_down and st = init_state
      and err = "ServiceError ''Invalid login''"]
  by (simp add: env_mail_down_def env0_def init_state_def)

end
